theory Spec2Isabelle
  imports Main
begin

section \<open>The rename controller of the editor (rename.ts)\<close>

text \<open>
  This theory embeds \<^verbatim>\<open>src/vs/editor/contrib/rename/browser/rename.ts\<close>: the class
  \<^verbatim>\<open>RenameController\<close> with its methods \<^verbatim>\<open>run\<close> and \<^verbatim>\<open>_prepareRename\<close>, and the two
  commands registered at the end of the file. The controller talks to collaborators that
  live in other files (the text model, the input field, the rename provider, the bulk
  edit, the message and progress services); each call to one of them is recorded, in
  order, in a trace, and what the collaborator answers is a parameter of the model.
\<close>

subsection \<open>Values of the editor\<close>

text \<open>
  \<^verbatim>\<open>IRange\<close> (and \<^verbatim>\<open>Selection\<close>, which extends it) has four numeric fields; lines and
  columns are integers. \<^verbatim>\<open>IWordAtPosition\<close> has the word's text and its two columns; its
  column fields are prefixed here because a record field name is global.
\<close>

record position =
  lineNumber :: int
  column :: int

record irange =
  startLineNumber :: int
  startColumn :: int
  endLineNumber :: int
  endColumn :: int

record wordAtPosition =
  word :: string
  wordStartColumn :: int
  wordEndColumn :: int

text \<open>
  Modelled from the spec: the class of the selection, with the two methods
  \<^verbatim>\<open>getStartPosition\<close> and \<^verbatim>\<open>isEmpty\<close> that \<^verbatim>\<open>run\<close> calls, is declared in another file. The
  spec speaks of "the selection's start position" and of an "empty" (collapsed) selection:
  the start position is the start line and start column, and a selection is empty when its
  two ends coincide.
\<close>

definition getStartPosition :: "irange \<Rightarrow> position" where
  "getStartPosition sel = \<lparr>lineNumber = startLineNumber sel, column = startColumn sel\<rparr>"

definition isEmpty :: "irange \<Rightarrow> bool" where
  "isEmpty sel \<longleftrightarrow>
     startLineNumber sel = endLineNumber sel \<and> startColumn sel = endColumn sel"

subsection \<open>The word range and the pre-selected part of the word (lines 70 to 85 of run)\<close>

text \<open>
  \<^verbatim>\<open>
  let lineNumber = selection.startLineNumber,
      selectionStart = 0,
      selectionEnd = word.word.length,
      wordRange: IRange;
  wordRange = { startLineNumber: lineNumber, startColumn: word.startColumn,
                endLineNumber: lineNumber, endColumn: word.endColumn };
  if (!selection.isEmpty() && selection.startLineNumber === selection.endLineNumber) {
      selectionStart = Math.max(0, selection.startColumn - word.startColumn);
      selectionEnd = Math.min(word.endColumn, selection.endColumn) - word.startColumn;
  }
  \<close>
  The pair returned by \<open>selectionSubRange\<close> is \<open>(selectionStart, selectionEnd)\<close>.
\<close>

definition wordRangeOf :: "irange \<Rightarrow> wordAtPosition \<Rightarrow> irange" where
  "wordRangeOf selection w =
     (let lineNumber = startLineNumber selection
      in \<lparr>startLineNumber = lineNumber, startColumn = wordStartColumn w,
          endLineNumber = lineNumber, endColumn = wordEndColumn w\<rparr>)"

definition selectionSubRange :: "irange \<Rightarrow> wordAtPosition \<Rightarrow> int \<times> int" where
  "selectionSubRange selection w =
     (if \<not> isEmpty selection \<and> startLineNumber selection = endLineNumber selection
      then (max 0 (startColumn selection - wordStartColumn w),
            min (wordEndColumn w) (endColumn selection) - wordStartColumn w)
      else (0, int (length (word w))))"

subsection \<open>Errors, results of the services, and the trace\<close>

text \<open>
  A promise is rejected with a JavaScript value. The controller asks two questions about
  such a value: \<^verbatim>\<open>typeof err === 'string'\<close> (line 101) and \<^verbatim>\<open>isPromiseCanceledError(err)\<close>
  (line 116). The datatype has one constructor for each answer: a string (\<open>JString\<close>, the
  only values whose \<^verbatim>\<open>typeof\<close> is \<^verbatim>\<open>'string'\<close>), the cancellation error of the promise
  library, and any other error object (with its message).
\<close>

datatype js_value = JString string | JCanceled | JErrorObject string

text \<open>
  Modelled from the spec: \<^verbatim>\<open>isPromiseCanceledError\<close> is imported from
  \<^verbatim>\<open>vs/base/common/errors\<close>, which is not part of the source at hand; the spec calls what it
  recognises "the host's own promise-cancellation signal", here the value \<open>JCanceled\<close>.
\<close>

fun isPromiseCanceledError :: "js_value \<Rightarrow> bool" where
  "isPromiseCanceledError JCanceled = True"
| "isPromiseCanceledError _ = False"

text \<open>
  The answer of the rename provider (\<^verbatim>\<open>result\<close> in \<^verbatim>\<open>_prepareRename\<close>) has an optional
  \<^verbatim>\<open>rejectReason\<close> and the \<^verbatim>\<open>edits\<close>. An edit is opaque to the controller: a resource, a
  range and the new text.
\<close>

type_synonym resource_edit = "string \<times> irange \<times> string"

record workspaceEdit =
  rejectReason :: "string option"
  edits :: "resource_edit list"

text \<open>The document is opaque to the controller, which only passes it on: its lines.\<close>

type_synonym text_model = "string list"

datatype severity = Info | Error

text \<open>
  One event for each call the controller makes on a collaborator, with the arguments of the
  call. \<open>ContextKeySet\<close> and \<open>ContextKeyReset\<close> are the calls on \<^verbatim>\<open>_renameInputVisible\<close>.
\<close>

datatype event =
    ContextKeySet bool
  | ContextKeyReset
  | GetInput irange string int int
  | EditorFocus
  | CreateBulkEdit
  | RenameCall text_model position string
  | BulkEditAdd "resource_edit list"
  | BulkEditFinish "resource_edit list"
  | EditorSetSelection irange
  | MessageShow severity string
  | ShowWhile nat

text \<open>
  The state the controller reads and writes: the context key \<^verbatim>\<open>renameInputVisible\<close>, the
  editor's selection, cursor position and document, and the trace of the calls made so far,
  oldest first.
\<close>

record world =
  renameInputVisible :: bool
  editorSelection :: irange
  editorPosition :: position
  editorModel :: text_model
  trace :: "event list"

subsection \<open>Promises\<close>

text \<open>
  Modelled from the spec: the promise library (\<^verbatim>\<open>TPromise\<close> of \<^verbatim>\<open>vs/base/common/winjs.base\<close>)
  is not part of the source at hand. The spec (section 5) describes the operations as
  asynchronous continuations on one logical thread, suspended while the input, the rename
  provider or the commit is awaited; \<^verbatim>\<open>then\<close> and \<^verbatim>\<open>wrapError\<close> follow their contract in
  the library.

  A promise is pending, completed with a value, or failed with an error value. In the model
  a promise is a computation on the state that runs when the promise settles: it returns
  how the promise settled and the state after the handlers attached to it have run. A
  promise that never settles returns \<open>Pending\<close> and runs no handler.
\<close>

datatype 'a settlement = Pending | Complete 'a | Failed js_value

type_synonym 'a promise = "world \<Rightarrow> 'a settlement \<times> world"

definition wrapError :: "js_value \<Rightarrow> 'a promise" where
  "wrapError err = (\<lambda>s. (Failed err, s))"

definition as_promise :: "'a \<Rightarrow> 'a promise" where
  "as_promise v = (\<lambda>s. (Complete v, s))"

text \<open>
  \<^verbatim>\<open>p.then(onComplete, onError)\<close>: when \<open>p\<close> completes, \<open>onComplete\<close> runs on its value;
  when \<open>p\<close> fails, \<open>onError\<close> runs on the error. A handler runs its own statements (it
  changes the state) and returns a promise, which settles the promise that \<open>then\<close> returned.
  A handler that returns a plain value or nothing returns \<open>as_promise\<close> of it here. The
  error handler is attached to \<open>p\<close> only: a failure of the promise that \<open>onComplete\<close>
  returns settles the result and is not given to \<open>onError\<close>.
\<close>

definition then2 ::
  "'a promise \<Rightarrow> ('a \<Rightarrow> world \<Rightarrow> 'b promise \<times> world)
     \<Rightarrow> (js_value \<Rightarrow> world \<Rightarrow> 'b promise \<times> world) \<Rightarrow> 'b promise" where
  "then2 p onComplete onError = (\<lambda>s.
     case p s of
       (Pending, s1) \<Rightarrow> (Pending, s1)
     | (Complete v, s1) \<Rightarrow> (case onComplete v s1 of (q, s2) \<Rightarrow> q s2)
     | (Failed err, s1) \<Rightarrow> (case onError err s1 of (q, s2) \<Rightarrow> q s2))"

text \<open>\<^verbatim>\<open>p.then(onComplete)\<close>: without an error handler a failure of \<open>p\<close> is passed on.\<close>

definition then1 ::
  "'a promise \<Rightarrow> ('a \<Rightarrow> world \<Rightarrow> 'b promise \<times> world) \<Rightarrow> 'b promise" where
  "then1 p onComplete = then2 p onComplete (\<lambda>err s. (wrapError err, s))"

subsection \<open>The collaborators\<close>

text \<open>
  What the collaborators answer, as functions of the arguments they are called with:
  the word lookup of the text model (\<open>None\<close> when there is no word at the position), and
  how the promises of the input field, of the rename provider and of \<^verbatim>\<open>BulkEdit.finish\<close>
  settle. \<open>finish\<close> gets the edits added to the bulk edit and completes with the resulting
  selection, if there is one.
\<close>

record services =
  getWordAtPosition :: "text_model \<Rightarrow> position \<Rightarrow> wordAtPosition option"
  getInput :: "irange \<Rightarrow> string \<Rightarrow> int \<Rightarrow> int \<Rightarrow> string settlement"
  rename :: "text_model \<Rightarrow> position \<Rightarrow> string \<Rightarrow> workspaceEdit settlement"
  finish :: "resource_edit list \<Rightarrow> irange option settlement"

definition emit :: "event \<Rightarrow> world \<Rightarrow> world" where
  "emit e s = s\<lparr>trace := trace s @ [e]\<rparr>"

text \<open>
  \<^verbatim>\<open>CONTEXT_RENAME_INPUT_VISIBLE = new RawContextKey<boolean>('renameInputVisible', false)\<close>:
  \<open>set\<close> stores the value, \<open>reset\<close> goes back to the default of the key, \<open>false\<close>.
\<close>

definition contextKey_set :: "bool \<Rightarrow> world \<Rightarrow> world" where
  "contextKey_set v s = emit (ContextKeySet v) (s\<lparr>renameInputVisible := v\<rparr>)"

definition contextKey_reset :: "world \<Rightarrow> world" where
  "contextKey_reset s = emit ContextKeyReset (s\<lparr>renameInputVisible := False\<rparr>)"

definition editor_focus :: "world \<Rightarrow> world" where
  "editor_focus s = emit EditorFocus s"

definition editor_setSelection :: "irange \<Rightarrow> world \<Rightarrow> world" where
  "editor_setSelection sel s = emit (EditorSetSelection sel) (s\<lparr>editorSelection := sel\<rparr>)"

definition messageService_show :: "severity \<Rightarrow> string \<Rightarrow> world \<Rightarrow> world" where
  "messageService_show sev msg s = emit (MessageShow sev msg) s"

definition progressService_showWhile :: "nat \<Rightarrow> world \<Rightarrow> world" where
  "progressService_showWhile delay s = emit (ShowWhile delay) s"

definition rename_failed :: string where
  "rename_failed = ''Sorry, rename failed to execute.''"

subsection \<open>RenameController._prepareRename (lines 130 to 143)\<close>

text \<open>
  \<^verbatim>\<open>
  let edit = createBulkEdit(this._eventService, this._editorService, this.editor);
  return rename(this.editor.getModel(), this.editor.getPosition(), newName).then(result => {
      if (result.rejectReason) {
          return TPromise.wrapError(result.rejectReason);
      }
      edit.add(result.edits);
      return edit;
  });
  \<close>
  The bulk edit is the list of the edits added to it, empty when created. The test
  \<^verbatim>\<open>if (result.rejectReason)\<close> is JavaScript's truthiness of an optional string: false when
  the field is absent and when it is the empty string.
\<close>

fun truthy :: "string option \<Rightarrow> bool" where
  "truthy None = False"
| "truthy (Some str) = (str \<noteq> [])"

definition prepareRename ::
  "services \<Rightarrow> string \<Rightarrow> world \<Rightarrow> (resource_edit list) promise \<times> world" where
  "prepareRename env newName s =
     (let s1 = emit CreateBulkEdit s;
          edit = [];
          m = editorModel s1;
          pos = editorPosition s1;
          s2 = emit (RenameCall m pos newName) s1
      in (then1 (\<lambda>t. (rename env m pos newName, t))
            (\<lambda>result t.
               let added =
                     (as_promise (edit @ edits result), emit (BulkEditAdd (edits result)) t)
               in case rejectReason result of
                    None \<Rightarrow> added
                  | Some reason \<Rightarrow>
                      if truthy (Some reason) then (wrapError (JString reason), t)
                      else added),
          s2))"

subsection \<open>RenameController.run (lines 61 to 120)\<close>

text \<open>
  The handler of the accepted name (lines 88 to 110):
  \<^verbatim>\<open>
  this._renameInputVisible.reset();
  this.editor.focus();
  const renameOperation = this._prepareRename(newName).then(edit => {
      return edit.finish().then(selection => {
          if (selection) { this.editor.setSelection(selection); }
      });
  }, err => {
      if (typeof err === 'string') {
          this._messageService.show(Severity.Info, err);
      } else {
          this._messageService.show(Severity.Error, nls.localize('rename.failed', "..."));
          return TPromise.wrapError(err);
      }
  });
  this._progressService.showWhile(renameOperation, 250);
  return renameOperation;
  \<close>
\<close>

definition onFinished :: "irange option \<Rightarrow> world \<Rightarrow> unit promise \<times> world" where
  "onFinished selection s =
     (case selection of
        Some sel \<Rightarrow> (as_promise (), editor_setSelection sel s)
      | None \<Rightarrow> (as_promise (), s))"

definition onPrepared :: "services \<Rightarrow> resource_edit list \<Rightarrow> world \<Rightarrow> unit promise \<times> world" where
  "onPrepared env edit s =
     (then1 (\<lambda>t. (finish env edit, t)) onFinished, emit (BulkEditFinish edit) s)"

definition onPrepareError :: "js_value \<Rightarrow> world \<Rightarrow> unit promise \<times> world" where
  "onPrepareError err s =
     (case err of
        JString str \<Rightarrow> (as_promise (), messageService_show Info str s)
      | _ \<Rightarrow> (wrapError err, messageService_show Error rename_failed s))"

definition onAccepted :: "services \<Rightarrow> string \<Rightarrow> world \<Rightarrow> unit promise \<times> world" where
  "onAccepted env newName s =
     (let s1 = contextKey_reset s;
          s2 = editor_focus s1;
          (prepared, s3) = prepareRename env newName s2;
          renameOperation = then2 prepared (onPrepared env) onPrepareError;
          s4 = progressService_showWhile 250 s3
      in (renameOperation, s4))"

text \<open>
  The handler of a failed input (lines 112 to 119):
  \<^verbatim>\<open>
  this._renameInputVisible.reset();
  this.editor.focus();
  if (!isPromiseCanceledError(err)) { return TPromise.wrapError(err); }
  \<close>
\<close>

definition onInputError :: "js_value \<Rightarrow> world \<Rightarrow> unit promise \<times> world" where
  "onInputError err s =
     (let s1 = contextKey_reset s;
          s2 = editor_focus s1
      in if \<not> isPromiseCanceledError err then (wrapError err, s2)
         else (as_promise (), s2))"

text \<open>
  \<^verbatim>\<open>run\<close> itself. Without a word it returns nothing (\<^verbatim>\<open>return;\<close>, line 67): \<open>None\<close>.
  Otherwise it sets the context key, calls \<^verbatim>\<open>getInput\<close> and returns the promise made by
  \<^verbatim>\<open>then\<close> with the two handlers: \<open>Some\<close> of it. The state returned is the state when
  \<^verbatim>\<open>run\<close> returns, before the input has settled.
\<close>

definition run :: "services \<Rightarrow> world \<Rightarrow> (unit promise) option \<times> world" where
  "run env s =
     (let selection = editorSelection s
      in case getWordAtPosition env (editorModel s) (getStartPosition selection) of
           None \<Rightarrow> (None, s)
         | Some w \<Rightarrow>
             (let wordRange = wordRangeOf selection w;
                  (selectionStart, selectionEnd) = selectionSubRange selection w;
                  s1 = contextKey_set True s;
                  s2 = emit (GetInput wordRange (word w) selectionStart selectionEnd) s1
              in (Some (then2
                         (\<lambda>t. (getInput env wordRange (word w) selectionStart selectionEnd, t))
                         (onAccepted env) onInputError),
                  s2)))"

text \<open>
  What the caller of \<^verbatim>\<open>run\<close> observes in the end: nothing was returned, or the returned
  promise is still pending, completed, or failed; with the state at that moment.
\<close>

datatype run_result = ReturnedNothing | Returned "unit settlement"

definition run_settled :: "services \<Rightarrow> world \<Rightarrow> run_result \<times> world" where
  "run_settled env s =
     (case run env s of
        (None, s1) \<Rightarrow> (ReturnedNothing, s1)
      | (Some p, s1) \<Rightarrow> (case p s1 of (r, s2) \<Rightarrow> (Returned r, s2)))"

subsection \<open>The two commands (lines 175 to 198)\<close>

text \<open>
  \<^verbatim>\<open>acceptRenameInput\<close> and \<^verbatim>\<open>cancelRenameInput\<close> are registered with
  \<^verbatim>\<open>precondition: CONTEXT_RENAME_INPUT_VISIBLE\<close>: a command is enabled when the context key
  is true.
\<close>

datatype renameCommand = AcceptRenameInput | CancelRenameInput

fun precondition :: "renameCommand \<Rightarrow> bool \<Rightarrow> bool" where
  "precondition AcceptRenameInput visible = visible"
| "precondition CancelRenameInput visible = visible"

text \<open>The value of the context key after a sequence of calls, replayed from the trace.\<close>

fun visible_after :: "bool \<Rightarrow> event list \<Rightarrow> bool" where
  "visible_after v [] = v"
| "visible_after v (ContextKeySet b # es) = visible_after b es"
| "visible_after v (ContextKeyReset # es) = visible_after False es"
| "visible_after v (_ # es) = visible_after v es"

text \<open>The messages shown, in order.\<close>

fun messages :: "event list \<Rightarrow> (severity \<times> string) list" where
  "messages [] = []"
| "messages (MessageShow sev msg # es) = (sev, msg) # messages es"
| "messages (_ # es) = messages es"

text \<open>
  The events \<^verbatim>\<open>run\<close> can produce after the rename provider has been called and the progress
  service told: additions to the bulk edit, its commit, the new selection, a message.
\<close>

fun completion_event :: "event \<Rightarrow> bool" where
  "completion_event (BulkEditAdd _) = True"
| "completion_event (BulkEditFinish _) = True"
| "completion_event (EditorSetSelection _) = True"
| "completion_event (MessageShow _ _) = True"
| "completion_event _ = False"

subsection \<open>Names for the arguments and the answer of the input field\<close>

text \<open>
  The call of \<^verbatim>\<open>getInput\<close> that \<^verbatim>\<open>run\<close> makes for a selection and the word found, and what
  the input field answers to that call.
\<close>

definition inputShown :: "irange \<Rightarrow> wordAtPosition \<Rightarrow> event" where
  "inputShown selection w =
     GetInput (wordRangeOf selection w) (word w)
       (fst (selectionSubRange selection w)) (snd (selectionSubRange selection w))"

definition inputOutcome :: "services \<Rightarrow> irange \<Rightarrow> wordAtPosition \<Rightarrow> string settlement" where
  "inputOutcome env selection w =
     getInput env (wordRangeOf selection w) (word w)
       (fst (selectionSubRange selection w)) (snd (selectionSubRange selection w))"

subsection \<open>A concrete editor\<close>

text \<open>
  A document with the one line \<open>let foo = 1;\<close>, the word \<open>foo\<close> in columns 5 to 8 and the
  cursor in front of it; collaborators that answer with given settlements.
\<close>

definition demo_word :: wordAtPosition where
  "demo_word = \<lparr>word = ''foo'', wordStartColumn = 5, wordEndColumn = 8\<rparr>"

definition demo_wordAt :: "text_model \<Rightarrow> position \<Rightarrow> wordAtPosition option" where
  "demo_wordAt m p =
     (if lineNumber p = 1 \<and> 5 \<le> column p \<and> column p \<le> 8 then Some demo_word else None)"

definition demo_world :: world where
  "demo_world =
     \<lparr>renameInputVisible = False,
      editorSelection = \<lparr>startLineNumber = 1, startColumn = 5, endLineNumber = 1, endColumn = 5\<rparr>,
      editorPosition = \<lparr>lineNumber = 1, column = 5\<rparr>,
      editorModel = [''let foo = 1;''],
      trace = []\<rparr>"

definition demo_services ::
  "string settlement \<Rightarrow> workspaceEdit settlement \<Rightarrow> irange option settlement \<Rightarrow> services" where
  "demo_services input renamed finished =
     \<lparr>getWordAtPosition = demo_wordAt,
      getInput = (\<lambda>_ _ _ _. input),
      rename = (\<lambda>_ _ _. renamed),
      finish = (\<lambda>_. finished)\<rparr>"

definition demo_edit :: resource_edit where
  "demo_edit =
     (''file:///a.ts'',
      \<lparr>startLineNumber = 1, startColumn = 5, endLineNumber = 1, endColumn = 8\<rparr>, ''bar'')"

section \<open>The paths of run\<close>

text \<open>
  Unfolding the definitions of the controller, of its steps and of the promises.
\<close>

lemmas step_defs = emit_def contextKey_set_def contextKey_reset_def editor_focus_def
  editor_setSelection_def messageService_show_def progressService_showWhile_def

lemmas promise_defs = then2_def then1_def wrapError_def as_promise_def

lemmas run_defs = run_settled_def run_def onAccepted_def onInputError_def prepareRename_def
  onPrepared_def onPrepareError_def onFinished_def inputShown_def inputOutcome_def
  step_defs promise_defs Let_def case_prod_beta

lemma messages_append: "messages (xs @ ys) = messages xs @ messages ys"
  by (induction xs rule: messages.induct) simp_all

lemma visible_after_append:
  "visible_after v (xs @ ys) = visible_after (visible_after v xs) ys"
  by (induction v xs rule: visible_after.induct) simp_all

lemma visible_after_no_set:
  "\<forall>e \<in> set es. \<forall>b. e \<noteq> ContextKeySet b \<Longrightarrow> visible_after v es \<Longrightarrow> v"
  by (induction v es rule: visible_after.induct) auto

lemma run_no_word:
  assumes "getWordAtPosition env (editorModel s) (getStartPosition (editorSelection s)) = None"
  shows "run env s = (None, s)"
  using assms by (simp add: run_defs)

lemma run_shows_input:
  assumes "getWordAtPosition env (editorModel s) (getStartPosition (editorSelection s)) = Some w"
  shows "snd (run env s) =
    s\<lparr>renameInputVisible := True,
      trace := trace s @ [ContextKeySet True, inputShown (editorSelection s) w]\<rparr>"
  using assms by (simp add: run_defs)

lemma run_settled_input_pending:
  assumes "getWordAtPosition env (editorModel s) (getStartPosition (editorSelection s)) = Some w"
    and "inputOutcome env (editorSelection s) w = Pending"
  shows "run_settled env s = (Returned Pending, snd (run env s))"
  using assms by (simp add: run_defs)

lemma run_settled_input_failed:
  assumes "getWordAtPosition env (editorModel s) (getStartPosition (editorSelection s)) = Some w"
    and "inputOutcome env (editorSelection s) w = Failed err"
  shows "run_settled env s =
    (Returned (if isPromiseCanceledError err then Complete () else Failed err),
     s\<lparr>renameInputVisible := False,
       trace := trace s @
         [ContextKeySet True, inputShown (editorSelection s) w, ContextKeyReset, EditorFocus]\<rparr>)"
  using assms by (simp add: run_defs)

text \<open>The calls made when a name has been accepted, up to the call of the progress service.\<close>

lemma run_settled_rename_pending:
  assumes "getWordAtPosition env (editorModel s) (getStartPosition (editorSelection s)) = Some w"
    and "inputOutcome env (editorSelection s) w = Complete newName"
    and "rename env (editorModel s) (editorPosition s) newName = Pending"
  shows "run_settled env s =
    (Returned Pending,
     s\<lparr>renameInputVisible := False,
       trace := trace s @
         [ContextKeySet True, inputShown (editorSelection s) w, ContextKeyReset, EditorFocus,
          CreateBulkEdit, RenameCall (editorModel s) (editorPosition s) newName,
          ShowWhile 250]\<rparr>)"
  using assms by (simp add: run_defs)

lemma run_settled_rename_failed:
  assumes "getWordAtPosition env (editorModel s) (getStartPosition (editorSelection s)) = Some w"
    and "inputOutcome env (editorSelection s) w = Complete newName"
    and "rename env (editorModel s) (editorPosition s) newName = Failed err"
  shows "run_settled env s =
    (Returned (case err of JString str \<Rightarrow> Complete () | _ \<Rightarrow> Failed err),
     s\<lparr>renameInputVisible := False,
       trace := trace s @
         [ContextKeySet True, inputShown (editorSelection s) w, ContextKeyReset, EditorFocus,
          CreateBulkEdit, RenameCall (editorModel s) (editorPosition s) newName,
          ShowWhile 250,
          case err of JString str \<Rightarrow> MessageShow Info str
                    | _ \<Rightarrow> MessageShow Error rename_failed]\<rparr>)"
  using assms by (cases err) (simp_all add: run_defs)

lemma run_settled_rejected:
  assumes "getWordAtPosition env (editorModel s) (getStartPosition (editorSelection s)) = Some w"
    and "inputOutcome env (editorSelection s) w = Complete newName"
    and "rename env (editorModel s) (editorPosition s) newName = Complete result"
    and "rejectReason result = Some reason" and "reason \<noteq> []"
  shows "run_settled env s =
    (Returned (Complete ()),
     s\<lparr>renameInputVisible := False,
       trace := trace s @
         [ContextKeySet True, inputShown (editorSelection s) w, ContextKeyReset, EditorFocus,
          CreateBulkEdit, RenameCall (editorModel s) (editorPosition s) newName,
          ShowWhile 250, MessageShow Info reason]\<rparr>)"
  using assms by (simp add: run_defs)

lemma run_settled_finish_pending:
  assumes "getWordAtPosition env (editorModel s) (getStartPosition (editorSelection s)) = Some w"
    and "inputOutcome env (editorSelection s) w = Complete newName"
    and "rename env (editorModel s) (editorPosition s) newName = Complete result"
    and "\<not> truthy (rejectReason result)"
    and "finish env (edits result) = Pending"
  shows "run_settled env s =
    (Returned Pending,
     s\<lparr>renameInputVisible := False,
       trace := trace s @
         [ContextKeySet True, inputShown (editorSelection s) w, ContextKeyReset, EditorFocus,
          CreateBulkEdit, RenameCall (editorModel s) (editorPosition s) newName,
          ShowWhile 250, BulkEditAdd (edits result), BulkEditFinish (edits result)]\<rparr>)"
  using assms by (cases "rejectReason result") (simp_all add: run_defs)

lemma run_settled_finish_failed:
  assumes "getWordAtPosition env (editorModel s) (getStartPosition (editorSelection s)) = Some w"
    and "inputOutcome env (editorSelection s) w = Complete newName"
    and "rename env (editorModel s) (editorPosition s) newName = Complete result"
    and "\<not> truthy (rejectReason result)"
    and "finish env (edits result) = Failed err"
  shows "run_settled env s =
    (Returned (Failed err),
     s\<lparr>renameInputVisible := False,
       trace := trace s @
         [ContextKeySet True, inputShown (editorSelection s) w, ContextKeyReset, EditorFocus,
          CreateBulkEdit, RenameCall (editorModel s) (editorPosition s) newName,
          ShowWhile 250, BulkEditAdd (edits result), BulkEditFinish (edits result)]\<rparr>)"
  using assms by (cases "rejectReason result") (simp_all add: run_defs)

lemma run_settled_finished:
  assumes "getWordAtPosition env (editorModel s) (getStartPosition (editorSelection s)) = Some w"
    and "inputOutcome env (editorSelection s) w = Complete newName"
    and "rename env (editorModel s) (editorPosition s) newName = Complete result"
    and "\<not> truthy (rejectReason result)"
    and "finish env (edits result) = Complete selection"
  shows "run_settled env s =
    (Returned (Complete ()),
     s\<lparr>renameInputVisible := False,
       editorSelection := (case selection of Some sel \<Rightarrow> sel | None \<Rightarrow> editorSelection s),
       trace := trace s @
         [ContextKeySet True, inputShown (editorSelection s) w, ContextKeyReset, EditorFocus,
          CreateBulkEdit, RenameCall (editorModel s) (editorPosition s) newName,
          ShowWhile 250, BulkEditAdd (edits result), BulkEditFinish (edits result)]
         @ (case selection of Some sel \<Rightarrow> [EditorSetSelection sel] | None \<Rightarrow> [])\<rparr>)"
  using assms by (cases "rejectReason result"; cases selection) (simp_all add: run_defs)

text \<open>
  Every accepted path: the six calls up to the rename provider, the progress service, then
  only completion events; the context key is false in the end.
\<close>

lemma run_settled_accepted:
  assumes w: "getWordAtPosition env (editorModel s) (getStartPosition (editorSelection s)) = Some w"
    and acc: "inputOutcome env (editorSelection s) w = Complete newName"
  shows "\<exists>rest. trace (snd (run_settled env s)) = trace s @
         [ContextKeySet True, inputShown (editorSelection s) w, ContextKeyReset, EditorFocus,
          CreateBulkEdit, RenameCall (editorModel s) (editorPosition s) newName,
          ShowWhile 250] @ rest
       \<and> (\<forall>e \<in> set rest. completion_event e)
       \<and> \<not> renameInputVisible (snd (run_settled env s))"
proof (cases "rename env (editorModel s) (editorPosition s) newName")
  case Pending
  show ?thesis
    by (rule exI [of _ "[]"]) (simp add: run_settled_rename_pending [OF w acc Pending])
next
  case (Failed err)
  show ?thesis
    by (rule exI [of _ "[case err of JString str \<Rightarrow> MessageShow Info str
                    | _ \<Rightarrow> MessageShow Error rename_failed]"])
       (simp add: run_settled_rename_failed [OF w acc Failed] split: js_value.splits)
next
  case (Complete result)
  show ?thesis
  proof (cases "truthy (rejectReason result)")
    case True
    then obtain reason where r: "rejectReason result = Some reason" "reason \<noteq> []"
      by (cases "rejectReason result") simp_all
    show ?thesis
      by (rule exI [of _ "[MessageShow Info reason]"])
         (simp add: run_settled_rejected [OF w acc Complete r])
  next
    case False
    show ?thesis
    proof (cases "finish env (edits result)")
      case Pending
      show ?thesis
        by (rule exI [of _ "[BulkEditAdd (edits result), BulkEditFinish (edits result)]"])
           (simp add: run_settled_finish_pending [OF w acc Complete False Pending])
    next
      case (Failed err)
      show ?thesis
        by (rule exI [of _ "[BulkEditAdd (edits result), BulkEditFinish (edits result)]"])
           (simp add: run_settled_finish_failed [OF w acc Complete False Failed])
    next
      case fin: (Complete selection)
      show ?thesis
        by (rule exI [of _ "[BulkEditAdd (edits result), BulkEditFinish (edits result)]
               @ (case selection of Some sel \<Rightarrow> [EditorSetSelection sel] | None \<Rightarrow> [])"])
           (auto simp: run_settled_finished [OF w acc Complete False fin] split: option.splits)
    qed
  qed
qed

text \<open>Evaluating the concrete editor.\<close>

lemmas demo_defs = demo_word_def demo_wordAt_def demo_world_def demo_services_def
  demo_edit_def getStartPosition_def wordRangeOf_def selectionSubRange_def isEmpty_def

section \<open>Properties\<close>

subsection \<open>The pre-selected part of the word\<close>

text \<open>
  Claim C4. A word is a contiguous token of a line, so it ends where its text ends:
  \<open>wordEndColumn = wordStartColumn + length of the text\<close> (the text model that delivers
  the word, \<^verbatim>\<open>getWordAtPosition\<close>, is declared in another file). For such a word and a non-empty
  selection on one line that starts inside the word and does not end before it starts, the
  pre-selected part satisfies \<open>0 \<le> selectionStart \<le> selectionEnd \<le> length of the text\<close>;
  for an empty selection or one that spans several lines the pre-selected part is the whole
  word, \<open>(0, length of the text)\<close>.
\<close>

theorem selectionSubRange_bounds:
  assumes wf: "wordEndColumn w = wordStartColumn w + int (length (word w))"
  shows "(\<not> isEmpty sel \<and> startLineNumber sel = endLineNumber sel
            \<and> wordStartColumn w \<le> startColumn sel \<and> startColumn sel \<le> wordEndColumn w
            \<and> startColumn sel \<le> endColumn sel
          \<longrightarrow> 0 \<le> fst (selectionSubRange sel w)
              \<and> fst (selectionSubRange sel w) \<le> snd (selectionSubRange sel w)
              \<and> snd (selectionSubRange sel w) \<le> int (length (word w)))
       \<and> (isEmpty sel \<or> startLineNumber sel \<noteq> endLineNumber sel
          \<longrightarrow> selectionSubRange sel w = (0, int (length (word w))))"
proof (intro conjI impI)
  assume inside: "\<not> isEmpty sel \<and> startLineNumber sel = endLineNumber sel
      \<and> wordStartColumn w \<le> startColumn sel \<and> startColumn sel \<le> wordEndColumn w
      \<and> startColumn sel \<le> endColumn sel"
  then have sub: "selectionSubRange sel w =
      (max 0 (startColumn sel - wordStartColumn w),
       min (wordEndColumn w) (endColumn sel) - wordStartColumn w)"
    by (simp add: selectionSubRange_def)
  show "0 \<le> fst (selectionSubRange sel w)"
    by (simp add: sub)
  show "fst (selectionSubRange sel w) \<le> snd (selectionSubRange sel w)"
    using inside by (simp add: sub)
  show "snd (selectionSubRange sel w) \<le> int (length (word w))"
    using wf by (simp add: sub)
next
  assume "isEmpty sel \<or> startLineNumber sel \<noteq> endLineNumber sel"
  then show "selectionSubRange sel w = (0, int (length (word w)))"
    by (auto simp: selectionSubRange_def)
qed

text \<open>
  The theorem at the word \<open>fooBar\<close> in columns 1 to 7: with the selection of columns 4 to 6
  on line 3 (first part), and with a selection from line 3 to line 4 (second part).
\<close>

theorem selectionSubRange_bounds_witness:
  "wordEndColumn \<lparr>word = ''fooBar'', wordStartColumn = 1, wordEndColumn = 7\<rparr>
     = wordStartColumn \<lparr>word = ''fooBar'', wordStartColumn = 1, wordEndColumn = 7\<rparr>
       + int (length (word \<lparr>word = ''fooBar'', wordStartColumn = 1, wordEndColumn = 7\<rparr>))
   \<and> \<not> isEmpty \<lparr>startLineNumber = 3, startColumn = 4, endLineNumber = 3, endColumn = 6\<rparr>
   \<and> 0 \<le> fst (selectionSubRange
         \<lparr>startLineNumber = 3, startColumn = 4, endLineNumber = 3, endColumn = 6\<rparr>
         \<lparr>word = ''fooBar'', wordStartColumn = 1, wordEndColumn = 7\<rparr>)
   \<and> fst (selectionSubRange
         \<lparr>startLineNumber = 3, startColumn = 4, endLineNumber = 3, endColumn = 6\<rparr>
         \<lparr>word = ''fooBar'', wordStartColumn = 1, wordEndColumn = 7\<rparr>)
       \<le> snd (selectionSubRange
         \<lparr>startLineNumber = 3, startColumn = 4, endLineNumber = 3, endColumn = 6\<rparr>
         \<lparr>word = ''fooBar'', wordStartColumn = 1, wordEndColumn = 7\<rparr>)
   \<and> snd (selectionSubRange
         \<lparr>startLineNumber = 3, startColumn = 4, endLineNumber = 3, endColumn = 6\<rparr>
         \<lparr>word = ''fooBar'', wordStartColumn = 1, wordEndColumn = 7\<rparr>) \<le> 6
   \<and> selectionSubRange
         \<lparr>startLineNumber = 3, startColumn = 4, endLineNumber = 4, endColumn = 2\<rparr>
         \<lparr>word = ''fooBar'', wordStartColumn = 1, wordEndColumn = 7\<rparr> = (0, 6)"
proof -
  let ?w = "\<lparr>word = ''fooBar'', wordStartColumn = 1, wordEndColumn = 7\<rparr>"
  have wf: "wordEndColumn ?w = wordStartColumn ?w + int (length (word ?w))"
    by simp
  show ?thesis
    using wf
      selectionSubRange_bounds [OF wf,
        of "\<lparr>startLineNumber = 3, startColumn = 4, endLineNumber = 3, endColumn = 6\<rparr>"]
      selectionSubRange_bounds [OF wf,
        of "\<lparr>startLineNumber = 3, startColumn = 4, endLineNumber = 4, endColumn = 2\<rparr>"]
    by (simp add: isEmpty_def)
qed

text \<open>
  Claim C9. The word \<open>foo\<close> in columns 5 to 8 with a collapsed selection at column 5 gives the
  pre-selected part \<open>(0, 3)\<close>; the word \<open>fooBar\<close> in columns 1 to 7 with a selection of
  columns 4 to 6 gives \<open>(3, 5)\<close>.
\<close>

theorem selectionSubRange_scenarios:
  "selectionSubRange
     \<lparr>startLineNumber = 1, startColumn = 5, endLineNumber = 1, endColumn = 5\<rparr>
     \<lparr>word = ''foo'', wordStartColumn = 5, wordEndColumn = 8\<rparr> = (0, 3)
   \<and> selectionSubRange
     \<lparr>startLineNumber = 1, startColumn = 4, endLineNumber = 1, endColumn = 6\<rparr>
     \<lparr>word = ''fooBar'', wordStartColumn = 1, wordEndColumn = 7\<rparr> = (3, 5)"
  by (simp add: selectionSubRange_def isEmpty_def)

subsection \<open>No word under the cursor\<close>

text \<open>
  Claim C5. When the document has no word at the start position of the selection, \<^verbatim>\<open>run\<close>
  returns nothing and leaves the state as it was: the context key is not set, the input is
  not shown, no message is shown (the trace of calls is unchanged) and no promise is
  returned that could fail.
\<close>

theorem run_without_word:
  assumes "getWordAtPosition env (editorModel s) (getStartPosition (editorSelection s)) = None"
  shows "run env s = (None, s) \<and> run_settled env s = (ReturnedNothing, s)"
  using assms by (simp add: run_settled_def run_no_word)

theorem run_without_word_witness:
  "getWordAtPosition (demo_services Pending Pending Pending)
       (editorModel (demo_world\<lparr>editorSelection :=
          \<lparr>startLineNumber = 1, startColumn = 4, endLineNumber = 1, endColumn = 4\<rparr>\<rparr>))
       (getStartPosition (editorSelection (demo_world\<lparr>editorSelection :=
          \<lparr>startLineNumber = 1, startColumn = 4, endLineNumber = 1, endColumn = 4\<rparr>\<rparr>))) = None
   \<and> run_settled (demo_services Pending Pending Pending)
       (demo_world\<lparr>editorSelection :=
          \<lparr>startLineNumber = 1, startColumn = 4, endLineNumber = 1, endColumn = 4\<rparr>\<rparr>)
     = (ReturnedNothing, demo_world\<lparr>editorSelection :=
          \<lparr>startLineNumber = 1, startColumn = 4, endLineNumber = 1, endColumn = 4\<rparr>\<rparr>)"
proof -
  let ?s = "demo_world\<lparr>editorSelection :=
          \<lparr>startLineNumber = 1, startColumn = 4, endLineNumber = 1, endColumn = 4\<rparr>\<rparr>"
  have h: "getWordAtPosition (demo_services Pending Pending Pending)
       (editorModel ?s) (getStartPosition (editorSelection ?s)) = None"
    by (simp add: demo_defs)
  show ?thesis
    using h run_without_word [OF h] by simp
qed

subsection \<open>Errors of the input field\<close>

text \<open>
  Claim C7. When the promise of the input field fails with an error, the context key is
  reset and the editor focused, and nothing else is called (no message is shown). If the
  error is the cancellation error of the promise library, the promise returned by \<^verbatim>\<open>run\<close>
  completes; any other error fails that promise with the same error.
\<close>

theorem input_error_path:
  assumes "getWordAtPosition env (editorModel s) (getStartPosition (editorSelection s)) = Some w"
    and "inputOutcome env (editorSelection s) w = Failed err"
  shows "\<not> renameInputVisible (snd (run_settled env s))
     \<and> trace (snd (run_settled env s)) = trace s @
         [ContextKeySet True, inputShown (editorSelection s) w, ContextKeyReset, EditorFocus]
     \<and> messages (trace (snd (run_settled env s))) = messages (trace s)
     \<and> (isPromiseCanceledError err \<longrightarrow> fst (run_settled env s) = Returned (Complete ()))
     \<and> (\<not> isPromiseCanceledError err \<longrightarrow> fst (run_settled env s) = Returned (Failed err))"
  using assms
  by (simp add: run_settled_input_failed messages_append inputShown_def)

theorem input_error_path_witness:
  "getWordAtPosition (demo_services (Failed JCanceled) Pending Pending)
       (editorModel demo_world) (getStartPosition (editorSelection demo_world)) = Some demo_word
   \<and> inputOutcome (demo_services (Failed JCanceled) Pending Pending)
       (editorSelection demo_world) demo_word = Failed JCanceled
   \<and> isPromiseCanceledError JCanceled
   \<and> fst (run_settled (demo_services (Failed JCanceled) Pending Pending) demo_world)
       = Returned (Complete ())
   \<and> trace (snd (run_settled (demo_services (Failed JCanceled) Pending Pending) demo_world))
       = [ContextKeySet True,
          GetInput \<lparr>startLineNumber = 1, startColumn = 5, endLineNumber = 1, endColumn = 8\<rparr>
            ''foo'' 0 3,
          ContextKeyReset, EditorFocus]
   \<and> getWordAtPosition (demo_services (Failed (JErrorObject ''disposed'')) Pending Pending)
       (editorModel demo_world) (getStartPosition (editorSelection demo_world)) = Some demo_word
   \<and> inputOutcome (demo_services (Failed (JErrorObject ''disposed'')) Pending Pending)
       (editorSelection demo_world) demo_word = Failed (JErrorObject ''disposed'')
   \<and> \<not> isPromiseCanceledError (JErrorObject ''disposed'')
   \<and> fst (run_settled (demo_services (Failed (JErrorObject ''disposed'')) Pending Pending)
         demo_world) = Returned (Failed (JErrorObject ''disposed''))
   \<and> \<not> renameInputVisible
         (snd (run_settled (demo_services (Failed (JErrorObject ''disposed'')) Pending Pending)
           demo_world))"
proof -
  let ?c = "demo_services (Failed JCanceled) Pending Pending"
  let ?d = "demo_services (Failed (JErrorObject ''disposed'')) Pending Pending"
  have wc: "getWordAtPosition ?c (editorModel demo_world)
      (getStartPosition (editorSelection demo_world)) = Some demo_word"
    by (simp add: demo_defs)
  have ic: "inputOutcome ?c (editorSelection demo_world) demo_word = Failed JCanceled"
    by (simp add: demo_defs inputOutcome_def)
  have wd: "getWordAtPosition ?d (editorModel demo_world)
      (getStartPosition (editorSelection demo_world)) = Some demo_word"
    by (simp add: demo_defs)
  have idd: "inputOutcome ?d (editorSelection demo_world) demo_word
      = Failed (JErrorObject ''disposed'')"
    by (simp add: demo_defs inputOutcome_def)
  have shown: "inputShown (editorSelection demo_world) demo_word =
      GetInput \<lparr>startLineNumber = 1, startColumn = 5, endLineNumber = 1, endColumn = 8\<rparr>
        ''foo'' 0 3"
    by (simp add: demo_defs inputShown_def)
  have empty: "trace demo_world = []"
    by (simp add: demo_world_def)
  show ?thesis
    using wc ic wd idd input_error_path [OF wc ic] input_error_path [OF wd idd]
    by (simp add: shown empty)
qed

subsection \<open>The context key of the input field\<close>

text \<open>
  Claim C3. When there is a word, \<^verbatim>\<open>run\<close> sets the context key to true immediately before
  it calls \<^verbatim>\<open>getInput\<close>, and the key is true when \<^verbatim>\<open>run\<close> returns. As long as the input
  is pending nothing more happens. When the input settles, with a name or with any error
  (cancellation and loss of focus arrive as errors), the first call of the handler is the
  reset of the key; the key is false after that call and after every later call of this
  invocation, and false in the final state.
\<close>

theorem visibility_flag_lifecycle:
  assumes w: "getWordAtPosition env (editorModel s) (getStartPosition (editorSelection s)) = Some w"
  shows "renameInputVisible (snd (run env s))
     \<and> trace (snd (run env s)) = trace s @ [ContextKeySet True, inputShown (editorSelection s) w]
     \<and> (inputOutcome env (editorSelection s) w = Pending
          \<longrightarrow> run_settled env s = (Returned Pending, snd (run env s)))
     \<and> (inputOutcome env (editorSelection s) w \<noteq> Pending
          \<longrightarrow> \<not> renameInputVisible (snd (run_settled env s))
            \<and> (\<exists>rest. trace (snd (run_settled env s))
                          = trace (snd (run env s)) @ ContextKeyReset # rest
                   \<and> (\<forall>k.
                         \<not> visible_after True (ContextKeyReset # take k rest))))"
proof (intro conjI impI)
  show "renameInputVisible (snd (run env s))"
    by (simp add: run_shows_input [OF w])
  show shown: "trace (snd (run env s))
      = trace s @ [ContextKeySet True, inputShown (editorSelection s) w]"
    by (simp add: run_shows_input [OF w])
  {
    assume "inputOutcome env (editorSelection s) w = Pending"
    then show "run_settled env s = (Returned Pending, snd (run env s))"
      by (rule run_settled_input_pending [OF w])
  }
  assume settled: "inputOutcome env (editorSelection s) w \<noteq> Pending"
  have "\<not> renameInputVisible (snd (run_settled env s))
      \<and> (\<exists>rest. trace (snd (run_settled env s))
                   = trace (snd (run env s)) @ ContextKeyReset # rest
             \<and> (\<forall>e \<in> set rest. \<forall>b. e \<noteq> ContextKeySet b))"
  proof (cases "inputOutcome env (editorSelection s) w")
    case Pending
    with settled show ?thesis by simp
  next
    case (Failed err)
    show ?thesis
      by (simp add: run_settled_input_failed [OF w Failed] shown)
  next
    case (Complete newName)
    from run_settled_accepted [OF w Complete] obtain rest where
      tr: "trace (snd (run_settled env s)) = trace s @
         [ContextKeySet True, inputShown (editorSelection s) w, ContextKeyReset, EditorFocus,
          CreateBulkEdit, RenameCall (editorModel s) (editorPosition s) newName,
          ShowWhile 250] @ rest"
      and quiet: "\<forall>e \<in> set rest. completion_event e"
      and off: "\<not> renameInputVisible (snd (run_settled env s))"
      by blast
    from quiet have "\<forall>e \<in> set rest. \<forall>b. e \<noteq> ContextKeySet b"
      by auto
    with tr off show ?thesis
      by (simp add: shown)
  qed
  then obtain rest where off: "\<not> renameInputVisible (snd (run_settled env s))"
    and tr: "trace (snd (run_settled env s)) = trace (snd (run env s)) @ ContextKeyReset # rest"
    and noset: "\<forall>e \<in> set rest. \<forall>b. e \<noteq> ContextKeySet b"
    by blast
  show "\<not> renameInputVisible (snd (run_settled env s))"
    by (rule off)
  have "\<not> visible_after True (ContextKeyReset # take k rest)" for k
  proof -
    have "\<forall>e \<in> set (take k rest). \<forall>b. e \<noteq> ContextKeySet b"
      using noset by (meson in_set_takeD)
    then show ?thesis
      using visible_after_no_set [of "take k rest" False] by auto
  qed
  with tr show "\<exists>rest. trace (snd (run_settled env s))
                          = trace (snd (run env s)) @ ContextKeyReset # rest
                   \<and> (\<forall>k.
                         \<not> visible_after True (ContextKeyReset # take k rest))"
    by blast
qed


theorem visibility_flag_lifecycle_witness:
  "getWordAtPosition (demo_services (Failed JCanceled) Pending Pending)
       (editorModel demo_world) (getStartPosition (editorSelection demo_world)) = Some demo_word
   \<and> inputOutcome (demo_services (Failed JCanceled) Pending Pending)
       (editorSelection demo_world) demo_word \<noteq> Pending
   \<and> renameInputVisible (snd (run (demo_services (Failed JCanceled) Pending Pending) demo_world))
   \<and> \<not> renameInputVisible
         (snd (run_settled (demo_services (Failed JCanceled) Pending Pending) demo_world))
   \<and> inputOutcome (demo_services Pending Pending Pending)
       (editorSelection demo_world) demo_word = Pending
   \<and> renameInputVisible
         (snd (run_settled (demo_services Pending Pending Pending) demo_world))"
proof -
  let ?c = "demo_services (Failed JCanceled) Pending Pending"
  let ?p = "demo_services Pending Pending Pending"
  have wc: "getWordAtPosition ?c (editorModel demo_world)
      (getStartPosition (editorSelection demo_world)) = Some demo_word"
    by (simp add: demo_defs)
  have ic: "inputOutcome ?c (editorSelection demo_world) demo_word \<noteq> Pending"
    by (simp add: demo_defs inputOutcome_def)
  have wp: "getWordAtPosition ?p (editorModel demo_world)
      (getStartPosition (editorSelection demo_world)) = Some demo_word"
    by (simp add: demo_defs)
  have ip: "inputOutcome ?p (editorSelection demo_world) demo_word = Pending"
    by (simp add: demo_defs inputOutcome_def)
  show ?thesis
    using wc ic ip visibility_flag_lifecycle [OF wc] visibility_flag_lifecycle [OF wp]
    by simp
qed

subsection \<open>The order of the calls after a name has been accepted\<close>

text \<open>
  Claim C6. When a name has been accepted, the bulk edit is created immediately before the
  rename provider is called, the provider is called with the document and the cursor
  position of the editor as they were when \<^verbatim>\<open>run\<close> started and with the accepted name, and
  neither call happens a second time. (Nothing in the controller changes the document or
  the cursor position in between; the input field is taken not to change them.)
\<close>

theorem bulk_edit_opened_before_rename:
  assumes w: "getWordAtPosition env (editorModel s) (getStartPosition (editorSelection s)) = Some w"
    and acc: "inputOutcome env (editorSelection s) w = Complete newName"
  shows "\<exists>rest. trace (snd (run_settled env s)) = trace s @
           [ContextKeySet True, inputShown (editorSelection s) w, ContextKeyReset, EditorFocus,
            CreateBulkEdit, RenameCall (editorModel s) (editorPosition s) newName] @ rest
         \<and> (\<forall>e \<in> set rest. e \<noteq> CreateBulkEdit \<and> (\<forall>m p n. e \<noteq> RenameCall m p n))"
proof -
  from run_settled_accepted [OF w acc] obtain rest where
    tr: "trace (snd (run_settled env s)) = trace s @
       [ContextKeySet True, inputShown (editorSelection s) w, ContextKeyReset, EditorFocus,
        CreateBulkEdit, RenameCall (editorModel s) (editorPosition s) newName,
        ShowWhile 250] @ rest"
    and quiet: "\<forall>e \<in> set rest. completion_event e"
    by blast
  from quiet have "\<forall>e \<in> set (ShowWhile 250 # rest).
      e \<noteq> CreateBulkEdit \<and> (\<forall>m p n. e \<noteq> RenameCall m p n)"
    by auto
  with tr show ?thesis
    by (intro exI [of _ "ShowWhile 250 # rest"]) simp
qed

theorem bulk_edit_opened_before_rename_witness:
  "getWordAtPosition (demo_services (Complete ''bar'') Pending Pending)
       (editorModel demo_world) (getStartPosition (editorSelection demo_world)) = Some demo_word
   \<and> inputOutcome (demo_services (Complete ''bar'') Pending Pending)
       (editorSelection demo_world) demo_word = Complete ''bar''
   \<and> (\<exists>rest. trace (snd (run_settled (demo_services (Complete ''bar'') Pending Pending)
                  demo_world)) =
           [ContextKeySet True,
            GetInput \<lparr>startLineNumber = 1, startColumn = 5, endLineNumber = 1, endColumn = 8\<rparr>
              ''foo'' 0 3,
            ContextKeyReset, EditorFocus, CreateBulkEdit,
            RenameCall [''let foo = 1;''] \<lparr>lineNumber = 1, column = 5\<rparr> ''bar''] @ rest)"
proof -
  let ?a = "demo_services (Complete ''bar'') Pending Pending"
  have wa: "getWordAtPosition ?a (editorModel demo_world)
      (getStartPosition (editorSelection demo_world)) = Some demo_word"
    by (simp add: demo_defs)
  have ia: "inputOutcome ?a (editorSelection demo_world) demo_word = Complete ''bar''"
    by (simp add: demo_defs inputOutcome_def)
  have shown: "inputShown (editorSelection demo_world) demo_word =
      GetInput \<lparr>startLineNumber = 1, startColumn = 5, endLineNumber = 1, endColumn = 8\<rparr>
        ''foo'' 0 3"
    by (simp add: demo_defs inputShown_def)
  have fields: "trace demo_world = []" "editorModel demo_world = [''let foo = 1;'']"
    "editorPosition demo_world = \<lparr>lineNumber = 1, column = 5\<rparr>"
    by (simp_all add: demo_world_def)
  from bulk_edit_opened_before_rename [OF wa ia] obtain rest where
    "trace (snd (run_settled ?a demo_world)) =
           [ContextKeySet True,
            GetInput \<lparr>startLineNumber = 1, startColumn = 5, endLineNumber = 1, endColumn = 8\<rparr>
              ''foo'' 0 3,
            ContextKeyReset, EditorFocus, CreateBulkEdit,
            RenameCall [''let foo = 1;''] \<lparr>lineNumber = 1, column = 5\<rparr> ''bar''] @ rest"
    by (auto simp: shown fields)
  with wa ia show ?thesis
    by blast
qed

text \<open>
  Claim C10. When a name has been accepted, the context key is reset and the editor focused
  before the bulk edit is created and the rename provider called. At the moment of each of
  these two calls and of every later call of the invocation, the key, replayed from the
  calls made so far, is false, so the preconditions of the commands \<^verbatim>\<open>acceptRenameInput\<close>
  and \<^verbatim>\<open>cancelRenameInput\<close> do not hold; the key is false in the final state.
\<close>

theorem key_false_during_rename:
  assumes w: "getWordAtPosition env (editorModel s) (getStartPosition (editorSelection s)) = Some w"
    and acc: "inputOutcome env (editorSelection s) w = Complete newName"
  shows "(\<exists>rest. trace (snd (run_settled env s)) = trace s @
            [ContextKeySet True, inputShown (editorSelection s) w, ContextKeyReset, EditorFocus]
            @ CreateBulkEdit # RenameCall (editorModel s) (editorPosition s) newName # rest
          \<and> (\<forall>k c. \<not> precondition c
                (visible_after (renameInputVisible s)
                  ([ContextKeySet True, inputShown (editorSelection s) w, ContextKeyReset,
                    EditorFocus]
                   @ take k (CreateBulkEdit
                       # RenameCall (editorModel s) (editorPosition s) newName # rest)))))
     \<and> \<not> renameInputVisible (snd (run_settled env s))"
proof -
  from run_settled_accepted [OF w acc] obtain rest where
    tr: "trace (snd (run_settled env s)) = trace s @
       [ContextKeySet True, inputShown (editorSelection s) w, ContextKeyReset, EditorFocus,
        CreateBulkEdit, RenameCall (editorModel s) (editorPosition s) newName,
        ShowWhile 250] @ rest"
    and quiet: "\<forall>e \<in> set rest. completion_event e"
    and off: "\<not> renameInputVisible (snd (run_settled env s))"
    by blast
  let ?tail = "CreateBulkEdit # RenameCall (editorModel s) (editorPosition s) newName
      # ShowWhile 250 # rest"
  from quiet have noset: "\<forall>e \<in> set ?tail. \<forall>b. e \<noteq> ContextKeySet b"
    by auto
  have "\<not> precondition c
      (visible_after (renameInputVisible s)
        ([ContextKeySet True, inputShown (editorSelection s) w, ContextKeyReset, EditorFocus]
         @ take k ?tail))" for k c
  proof -
    have "\<forall>e \<in> set (take k ?tail). \<forall>b. e \<noteq> ContextKeySet b"
      using noset by (meson in_set_takeD)
    then have "\<not> visible_after False (take k ?tail)"
      using visible_after_no_set [of "take k ?tail" False] by blast
    then have "\<not> visible_after (renameInputVisible s)
        ([ContextKeySet True, inputShown (editorSelection s) w, ContextKeyReset, EditorFocus]
         @ take k ?tail)"
      by (simp add: visible_after_append inputShown_def)
    then show ?thesis
      by (cases c) simp_all
  qed
  with tr off show ?thesis
    by (intro conjI exI [of _ "ShowWhile 250 # rest"]) simp_all
qed

theorem key_false_during_rename_witness:
  "getWordAtPosition (demo_services (Complete ''bar'') Pending Pending)
       (editorModel demo_world) (getStartPosition (editorSelection demo_world)) = Some demo_word
   \<and> inputOutcome (demo_services (Complete ''bar'') Pending Pending)
       (editorSelection demo_world) demo_word = Complete ''bar''
   \<and> \<not> renameInputVisible
         (snd (run_settled (demo_services (Complete ''bar'') Pending Pending) demo_world))"
proof -
  let ?a = "demo_services (Complete ''bar'') Pending Pending"
  have wa: "getWordAtPosition ?a (editorModel demo_world)
      (getStartPosition (editorSelection demo_world)) = Some demo_word"
    by (simp add: demo_defs)
  have ia: "inputOutcome ?a (editorSelection demo_world) demo_word = Complete ''bar''"
    by (simp add: demo_defs inputOutcome_def)
  show ?thesis
    using wa ia key_false_during_rename [OF wa ia] by blast
qed

subsection \<open>The answers of the rename provider and of the commit\<close>

text \<open>
  Claim C8. When a name has been accepted, the rename provider answers with edits (its
  \<^verbatim>\<open>rejectReason\<close> is not truthy) and \<^verbatim>\<open>finish\<close> completes: the promise of \<^verbatim>\<open>run\<close>
  completes; if \<^verbatim>\<open>finish\<close> gave a selection, the controller sets the editor's selection to
  it, and if it gave none, the controller does not touch the selection; the edits given to
  the bulk edit and committed are those of the answer; no message is shown.
\<close>

theorem commit_succeeded:
  assumes w: "getWordAtPosition env (editorModel s) (getStartPosition (editorSelection s)) = Some w"
    and acc: "inputOutcome env (editorSelection s) w = Complete newName"
    and res: "rename env (editorModel s) (editorPosition s) newName = Complete result"
    and edits: "\<not> truthy (rejectReason result)"
    and fin: "finish env (edits result) = Complete selection"
  shows "fst (run_settled env s) = Returned (Complete ())
     \<and> editorSelection (snd (run_settled env s))
         = (case selection of Some sel \<Rightarrow> sel | None \<Rightarrow> editorSelection s)
     \<and> trace (snd (run_settled env s)) = trace s @
         [ContextKeySet True, inputShown (editorSelection s) w, ContextKeyReset, EditorFocus,
          CreateBulkEdit, RenameCall (editorModel s) (editorPosition s) newName,
          ShowWhile 250, BulkEditAdd (edits result), BulkEditFinish (edits result)]
         @ (case selection of Some sel \<Rightarrow> [EditorSetSelection sel] | None \<Rightarrow> [])
     \<and> messages (trace (snd (run_settled env s))) = messages (trace s)"
  by (cases selection)
     (simp_all add: run_settled_finished [OF w acc res edits fin] messages_append inputShown_def)

theorem commit_succeeded_witness:
  "getWordAtPosition
       (demo_services (Complete ''bar'')
          (Complete \<lparr>rejectReason = None, edits = [demo_edit]\<rparr>)
          (Complete (Some \<lparr>startLineNumber = 1, startColumn = 8, endLineNumber = 1, endColumn = 8\<rparr>)))
       (editorModel demo_world) (getStartPosition (editorSelection demo_world)) = Some demo_word
   \<and> \<not> truthy (rejectReason \<lparr>rejectReason = None, edits = [demo_edit]\<rparr>)
   \<and> fst (run_settled
       (demo_services (Complete ''bar'')
          (Complete \<lparr>rejectReason = None, edits = [demo_edit]\<rparr>)
          (Complete (Some \<lparr>startLineNumber = 1, startColumn = 8, endLineNumber = 1, endColumn = 8\<rparr>)))
       demo_world) = Returned (Complete ())
   \<and> editorSelection (snd (run_settled
       (demo_services (Complete ''bar'')
          (Complete \<lparr>rejectReason = None, edits = [demo_edit]\<rparr>)
          (Complete (Some \<lparr>startLineNumber = 1, startColumn = 8, endLineNumber = 1, endColumn = 8\<rparr>)))
       demo_world))
       = \<lparr>startLineNumber = 1, startColumn = 8, endLineNumber = 1, endColumn = 8\<rparr>
   \<and> editorSelection (snd (run_settled
       (demo_services (Complete ''bar'')
          (Complete \<lparr>rejectReason = None, edits = [demo_edit]\<rparr>) (Complete None))
       demo_world)) = editorSelection demo_world
   \<and> messages (trace (snd (run_settled
       (demo_services (Complete ''bar'')
          (Complete \<lparr>rejectReason = None, edits = [demo_edit]\<rparr>) (Complete None))
       demo_world))) = []"
proof -
  let ?r = "\<lparr>rejectReason = None, edits = [demo_edit]\<rparr>"
  let ?sel = "\<lparr>startLineNumber = 1, startColumn = 8, endLineNumber = 1, endColumn = 8\<rparr>"
  let ?a = "demo_services (Complete ''bar'') (Complete ?r) (Complete (Some ?sel))"
  let ?b = "demo_services (Complete ''bar'') (Complete ?r) (Complete None)"
  have wa: "getWordAtPosition ?a (editorModel demo_world)
      (getStartPosition (editorSelection demo_world)) = Some demo_word"
    by (simp add: demo_defs)
  have ia: "inputOutcome ?a (editorSelection demo_world) demo_word = Complete ''bar''"
    by (simp add: demo_defs inputOutcome_def)
  have ra: "rename ?a (editorModel demo_world) (editorPosition demo_world) ''bar'' = Complete ?r"
    by (simp add: demo_services_def)
  have fa: "finish ?a (edits ?r) = Complete (Some ?sel)"
    by (simp add: demo_services_def)
  have wb: "getWordAtPosition ?b (editorModel demo_world)
      (getStartPosition (editorSelection demo_world)) = Some demo_word"
    by (simp add: demo_defs)
  have ib: "inputOutcome ?b (editorSelection demo_world) demo_word = Complete ''bar''"
    by (simp add: demo_defs inputOutcome_def)
  have rb: "rename ?b (editorModel demo_world) (editorPosition demo_world) ''bar'' = Complete ?r"
    by (simp add: demo_services_def)
  have fb: "finish ?b (edits ?r) = Complete None"
    by (simp add: demo_services_def)
  have falsy: "\<not> truthy (rejectReason ?r)"
    by simp
  have fields: "trace demo_world = []"
    by (simp add: demo_world_def)
  have shown: "inputShown (editorSelection demo_world) demo_word =
      GetInput \<lparr>startLineNumber = 1, startColumn = 5, endLineNumber = 1, endColumn = 8\<rparr>
        ''foo'' 0 3"
    by (simp add: demo_defs inputShown_def)
  show ?thesis
    using wa falsy commit_succeeded [OF wa ia ra falsy fa] commit_succeeded [OF wb ib rb falsy fb]
    by (simp add: fields shown)
qed

text \<open>
  Claim C2, as amended. When a name has been accepted and the rename provider answers with
  a \<^verbatim>\<open>rejectReason\<close> that is a non-empty string, that string is shown as it is at severity
  \<open>Info\<close>, this is the only message and the last call of the invocation (nothing is added to
  the bulk edit and \<^verbatim>\<open>finish\<close> is not called), and the promise of \<^verbatim>\<open>run\<close> completes.
\<close>

theorem rejection_shown_as_info:
  assumes w: "getWordAtPosition env (editorModel s) (getStartPosition (editorSelection s)) = Some w"
    and acc: "inputOutcome env (editorSelection s) w = Complete newName"
    and res: "rename env (editorModel s) (editorPosition s) newName = Complete result"
    and rej: "rejectReason result = Some reason"
    and nonempty: "reason \<noteq> []"
  shows "fst (run_settled env s) = Returned (Complete ())
     \<and> trace (snd (run_settled env s)) = trace s @
         [ContextKeySet True, inputShown (editorSelection s) w, ContextKeyReset, EditorFocus,
          CreateBulkEdit, RenameCall (editorModel s) (editorPosition s) newName,
          ShowWhile 250, MessageShow Info reason]
     \<and> messages (trace (snd (run_settled env s))) = messages (trace s) @ [(Info, reason)]"
  by (simp add: run_settled_rejected [OF w acc res rej nonempty] messages_append inputShown_def)

theorem rejection_shown_as_info_witness:
  "getWordAtPosition
       (demo_services (Complete ''bar'')
          (Complete \<lparr>rejectReason = Some ''no other references found'', edits = []\<rparr>) Pending)
       (editorModel demo_world) (getStartPosition (editorSelection demo_world)) = Some demo_word
   \<and> ''no other references found'' \<noteq> []
   \<and> fst (run_settled
       (demo_services (Complete ''bar'')
          (Complete \<lparr>rejectReason = Some ''no other references found'', edits = []\<rparr>) Pending)
       demo_world) = Returned (Complete ())
   \<and> trace (snd (run_settled
       (demo_services (Complete ''bar'')
          (Complete \<lparr>rejectReason = Some ''no other references found'', edits = []\<rparr>) Pending)
       demo_world)) =
         [ContextKeySet True,
          GetInput \<lparr>startLineNumber = 1, startColumn = 5, endLineNumber = 1, endColumn = 8\<rparr>
            ''foo'' 0 3,
          ContextKeyReset, EditorFocus, CreateBulkEdit,
          RenameCall [''let foo = 1;''] \<lparr>lineNumber = 1, column = 5\<rparr> ''bar'',
          ShowWhile 250, MessageShow Info ''no other references found'']"
proof -
  let ?r = "\<lparr>rejectReason = Some ''no other references found'', edits = []\<rparr>"
  let ?a = "demo_services (Complete ''bar'') (Complete ?r) Pending"
  have wa: "getWordAtPosition ?a (editorModel demo_world)
      (getStartPosition (editorSelection demo_world)) = Some demo_word"
    by (simp add: demo_defs)
  have ia: "inputOutcome ?a (editorSelection demo_world) demo_word = Complete ''bar''"
    by (simp add: demo_defs inputOutcome_def)
  have ra: "rename ?a (editorModel demo_world) (editorPosition demo_world) ''bar'' = Complete ?r"
    by (simp add: demo_services_def)
  have rej: "rejectReason ?r = Some ''no other references found''"
    by simp
  have ne: "''no other references found'' \<noteq> []"
    by simp
  have shown: "inputShown (editorSelection demo_world) demo_word =
      GetInput \<lparr>startLineNumber = 1, startColumn = 5, endLineNumber = 1, endColumn = 8\<rparr>
        ''foo'' 0 3"
    by (simp add: demo_defs inputShown_def)
  have fields: "trace demo_world = []" "editorModel demo_world = [''let foo = 1;'']"
    "editorPosition demo_world = \<lparr>lineNumber = 1, column = 5\<rparr>"
    by (simp_all add: demo_world_def)
  show ?thesis
    using wa ne rejection_shown_as_info [OF wa ia ra rej ne]
    by (simp add: shown fields)
qed

text \<open>
  Claim C2 as it was stated, for every reason, fails at the empty string: the test
  \<^verbatim>\<open>if (result.rejectReason)\<close> is false for it, so the edits of the answer are added to the
  bulk edit, \<^verbatim>\<open>finish\<close> is called, and no message is shown.
\<close>

theorem empty_rejectReason_is_committed:
  "rename (demo_services (Complete ''bar'')
          (Complete \<lparr>rejectReason = Some [], edits = [demo_edit]\<rparr>) (Complete None))
       (editorModel demo_world) (editorPosition demo_world) ''bar''
     = Complete \<lparr>rejectReason = Some [], edits = [demo_edit]\<rparr>
   \<and> run_settled
       (demo_services (Complete ''bar'')
          (Complete \<lparr>rejectReason = Some [], edits = [demo_edit]\<rparr>) (Complete None))
       demo_world
     = (Returned (Complete ()),
        demo_world\<lparr>trace :=
         [ContextKeySet True,
          GetInput \<lparr>startLineNumber = 1, startColumn = 5, endLineNumber = 1, endColumn = 8\<rparr>
            ''foo'' 0 3,
          ContextKeyReset, EditorFocus, CreateBulkEdit,
          RenameCall [''let foo = 1;''] \<lparr>lineNumber = 1, column = 5\<rparr> ''bar'',
          ShowWhile 250, BulkEditAdd [demo_edit], BulkEditFinish [demo_edit]]\<rparr>)
   \<and> messages (trace (snd (run_settled
       (demo_services (Complete ''bar'')
          (Complete \<lparr>rejectReason = Some [], edits = [demo_edit]\<rparr>) (Complete None))
       demo_world))) = []"
  by (simp add: run_defs demo_defs)

text \<open>
  Claim C1 says that a failure of \<^verbatim>\<open>finish\<close> is reported with the message
  \<open>rename_failed\<close> at severity \<open>Error\<close> and fails the promise of \<^verbatim>\<open>run\<close>. The handler that
  shows that message is the second argument of the \<^verbatim>\<open>then\<close> on the promise of
  \<^verbatim>\<open>_prepareRename\<close> (line 100); \<^verbatim>\<open>finish\<close> is called inside the first argument of the same
  \<^verbatim>\<open>then\<close>, so its failure is not given to that handler. Evaluated on a commit that fails
  with a conflict: the promise of \<^verbatim>\<open>run\<close> fails with the error of \<^verbatim>\<open>finish\<close>, and no message
  is shown.
\<close>

theorem commit_failure_shows_no_message:
  "finish (demo_services (Complete ''bar'')
          (Complete \<lparr>rejectReason = None, edits = [demo_edit]\<rparr>)
          (Failed (JErrorObject ''conflict'')))
       [demo_edit] = Failed (JErrorObject ''conflict'')
   \<and> run_settled
       (demo_services (Complete ''bar'')
          (Complete \<lparr>rejectReason = None, edits = [demo_edit]\<rparr>)
          (Failed (JErrorObject ''conflict'')))
       demo_world
     = (Returned (Failed (JErrorObject ''conflict'')),
        demo_world\<lparr>trace :=
         [ContextKeySet True,
          GetInput \<lparr>startLineNumber = 1, startColumn = 5, endLineNumber = 1, endColumn = 8\<rparr>
            ''foo'' 0 3,
          ContextKeyReset, EditorFocus, CreateBulkEdit,
          RenameCall [''let foo = 1;''] \<lparr>lineNumber = 1, column = 5\<rparr> ''bar'',
          ShowWhile 250, BulkEditAdd [demo_edit], BulkEditFinish [demo_edit]]\<rparr>)
   \<and> messages (trace (snd (run_settled
       (demo_services (Complete ''bar'')
          (Complete \<lparr>rejectReason = None, edits = [demo_edit]\<rparr>)
          (Failed (JErrorObject ''conflict'')))
       demo_world))) = []"
  by (simp add: run_defs demo_defs)

end
